theory Spec2Isabelle
  imports Main "HOL-Library.Word"
begin

unbundle bit_operations_syntax

section \<open>Data model of colorTest_main.c\<close>

text \<open>
  The C type \<open>unsigned int\<close> of the target (a 32-bit ARM board) is \<open>32 word\<close>:
  \<open>+\<close> and \<open>-\<close> wrap around and \<open><\<close> is the unsigned comparison.
\<close>

type_synonym uint = "32 word"

definition OPENING_WAIT :: nat where
  "OPENING_WAIT = 1000"

definition ENDTEST_WAIT :: nat where
  "ENDTEST_WAIT = 2000"

definition TOP_OPTION_POS :: uint where
  "TOP_OPTION_POS = 1"

definition BOTTOM_OPTION_POS :: uint where
  "BOTTOM_OPTION_POS = 4"

text \<open>
  \<open>typedef enum {RED, GREEN, BLUE} color_t\<close>. The variable \<open>colorIndex\<close> of this type is
  incremented past \<open>BLUE\<close>, so the enumeration is modelled by its integer values.
\<close>

type_synonym color_t = uint

definition RED :: color_t where
  "RED = 0"

definition GREEN :: color_t where
  "GREEN = 1"

definition BLUE :: color_t where
  "BLUE = 2"

definition END :: uint where
  "END = 3"

record colorMix_t =
  hasRed :: bool
  hasGreen :: bool
  hasBlue :: bool

subsection \<open>The hardware abstraction layer\<close>

text \<open>
  The HAL headers are not part of the sources. Every call into the HAL is recorded, in
  program order, as an event; what the HAL returns to the program during one poll is an
  input of that poll. Each HAL query is made at most once per call of \<open>ScreensFSM\<close>, so
  one value per query and poll is enough.
\<close>

datatype hw_timer = TIMER32_1_BASE

datatype lcd_color = MY_BLACK

datatype event =
    LCDClearDisplay lcd_color
  | PrintString string nat nat
  | LCDDrawChar uint nat char
  | TurnOFF_Booster_Red_LED
  | TurnOFF_Booster_Green_LED
  | TurnOFF_Booster_Blue_LED
  | TurnON_Booster_Red_LED
  | TurnON_Booster_Green_LED
  | TurnON_Booster_Blue_LED
  | getSampleJoyStick
  | Booster_Bottom_Button_Pushed
  | Booster_Top_Button_Pushed
  | OneShotSWTimerExpired
  | InitOneShotSWTimer hw_timer nat
  | StartOneShotSWTimer

record hal_in =
  joyStick_vx :: uint
  joyStick_vy :: uint
  bottom_pushed :: bool
  top_pushed :: bool
  timer_expired :: bool

section \<open>Screens\<close>

definition DrawOpeningScreen :: "event list" where
  "DrawOpeningScreen =
     [LCDClearDisplay MY_BLACK,
      PrintString ''COLOR TEST'' 2 2,
      PrintString ''by'' 3 3,
      PrintString ''LN'' 4 2]"

definition DrawInstructionsScreen :: "event list" where
  "DrawInstructionsScreen =
     [LCDClearDisplay MY_BLACK,
      PrintString ''Guess RGB mix.'' 1 1,
      PrintString ''During test:'' 2 1,
      PrintString ''BTM: move arrow'' 3 1,
      PrintString ''TOP: select'' 4 1,
      PrintString ''BTM to start'' 7 1]"

definition DrawTestScreen :: "event list" where
  "DrawTestScreen =
     [LCDClearDisplay MY_BLACK,
      PrintString ''Red'' 1 3,
      PrintString ''Green'' 2 3,
      PrintString ''Blue'' 3 3,
      PrintString ''End test'' 4 3,
      PrintString ''BTM: move arrow'' 6 1,
      PrintString ''TOP: select'' 7 1,
      LCDDrawChar 1 1 (CHR ''>'')]"

definition DrawEndTestScreen :: "bool \<Rightarrow> event list" where
  "DrawEndTestScreen correct =
     LCDClearDisplay MY_BLACK #
     (if correct then [PrintString ''Right!'' 2 3] else [PrintString ''Wrong!'' 2 3])"

section \<open>Comparing two colour mixes\<close>

definition match :: "colorMix_t \<Rightarrow> colorMix_t \<Rightarrow> bool" where
  "match guessColor actualColor =
     (if hasBlue guessColor = hasBlue actualColor \<and>
         hasGreen guessColor = hasGreen actualColor \<and>
         hasRed guessColor = hasRed actualColor
      then True else False)"

section \<open>The guess cycle\<close>

text \<open>
  \<open>guess\<close> reads and writes \<open>*arrowPosPointer\<close> and \<open>*guessColor\<close>; the model takes
  their contents and returns \<open>(finished, arrowPos, guessColor, events)\<close>. The two
  \<open>if\<close> blocks of the body are \<open>guess_move\<close> (the bottom button) and \<open>guess_select\<close>
  (the top button), run in this order.
\<close>

definition guess_move :: "hal_in \<Rightarrow> uint \<Rightarrow> uint \<times> event list" where
  "guess_move i arrowPos =
     (if bottom_pushed i then
        (let arrowPos1 = arrowPos + 1;
             arrowPos2 = (if arrowPos1 > BOTTOM_OPTION_POS then TOP_OPTION_POS else arrowPos1)
         in (arrowPos2,
             [Booster_Bottom_Button_Pushed,
              LCDDrawChar arrowPos 1 (CHR '' ''),
              LCDDrawChar arrowPos2 1 (CHR ''>'')]))
      else (arrowPos, [Booster_Bottom_Button_Pushed]))"

definition guess_select :: "hal_in \<Rightarrow> uint \<Rightarrow> colorMix_t \<Rightarrow> bool \<times> colorMix_t \<times> event list" where
  "guess_select i arrowPos guessColor =
     (if top_pushed i then
        (let choice = arrowPos - TOP_OPTION_POS;
             ev = [Booster_Top_Button_Pushed, LCDDrawChar arrowPos 9 (CHR ''*'')]
         in if choice = RED then (False, guessColor\<lparr>hasRed := True\<rparr>, ev)
            else if choice = GREEN then (False, guessColor\<lparr>hasGreen := True\<rparr>, ev)
            else if choice = BLUE then (False, guessColor\<lparr>hasBlue := True\<rparr>, ev)
            else (True, guessColor, ev))
      else (False, guessColor, [Booster_Top_Button_Pushed]))"

definition guess :: "hal_in \<Rightarrow> uint \<Rightarrow> colorMix_t \<Rightarrow> bool \<times> uint \<times> colorMix_t \<times> event list" where
  "guess i arrowPos0 guessColor0 =
     (case guess_move i arrowPos0 of (arrowPos, ev1) \<Rightarrow>
        (case guess_select i arrowPos guessColor0 of (finished, guessColor, ev2) \<Rightarrow>
           (finished, arrowPos, guessColor, ev1 @ ev2)))"

section \<open>The test controller\<close>

text \<open>
  \<open>static enum {setup, lightup, testing} testState\<close>. The first enumerator is written
  \<open>setup_state\<close> here, its name in the source being a keyword of the theory language.
\<close>

datatype testState_t = setup_state | lightup | testing

text \<open>The \<open>static\<close> variables of \<open>testFSM\<close>, which keep their values between calls.\<close>

record testFSM_vars =
  actualColor :: colorMix_t
  guessColor :: colorMix_t
  colorIndex :: color_t
  testState :: testState_t
  arrowPos :: uint

text \<open>C initialises static storage to zero: all flags false, \<open>RED\<close>, the first state, 0.\<close>

definition testFSM_init :: testFSM_vars where
  "testFSM_init =
     \<lparr>actualColor = \<lparr>hasRed = False, hasGreen = False, hasBlue = False\<rparr>,
      guessColor = \<lparr>hasRed = False, hasGreen = False, hasBlue = False\<rparr>,
      colorIndex = 0,
      testState = setup_state,
      arrowPos = 0\<rparr>"

text \<open>The block \<open>if (newTest) { ... }\<close> at the head of \<open>testFSM\<close>.\<close>

definition testFSM_reset :: "bool \<Rightarrow> testFSM_vars \<Rightarrow> testFSM_vars \<times> event list" where
  "testFSM_reset nt s =
     (if nt then
        (s\<lparr>testState := setup_state,
           colorIndex := RED,
           arrowPos := TOP_OPTION_POS,
           guessColor := (guessColor s)\<lparr>hasRed := False, hasGreen := False, hasBlue := False\<rparr>\<rparr>,
         [TurnOFF_Booster_Blue_LED, TurnOFF_Booster_Green_LED, TurnOFF_Booster_Red_LED])
      else (s, []))"

text \<open>
  \<open>randomBit = (vx%2) ^ (vy%2)\<close>: the value 0 or 1 of type \<open>unsigned int\<close> is converted
  to \<open>bool\<close>, which is true for every value but 0.
\<close>

definition randomBit :: "hal_in \<Rightarrow> bool" where
  "randomBit i = (((joyStick_vx i mod 2) XOR (joyStick_vy i mod 2)) \<noteq> 0)"

text \<open>The \<open>switch (testState)\<close> of \<open>testFSM\<close>; it returns \<open>(finished, variables, events)\<close>.\<close>

definition testFSM_switch :: "hal_in \<Rightarrow> testFSM_vars \<Rightarrow> bool \<times> testFSM_vars \<times> event list" where
  "testFSM_switch i s =
     (case testState s of
        setup_state \<Rightarrow>
          (let s1 =
                 (if colorIndex s = RED then
                    s\<lparr>actualColor := (actualColor s)\<lparr>hasRed := randomBit i\<rparr>\<rparr>
                  else if colorIndex s = GREEN then
                    s\<lparr>actualColor := (actualColor s)\<lparr>hasGreen := randomBit i\<rparr>\<rparr>
                  else if colorIndex s = BLUE then
                    s\<lparr>actualColor := (actualColor s)\<lparr>hasBlue := randomBit i\<rparr>\<rparr>
                  else s\<lparr>testState := lightup\<rparr>)
           in (False, s1\<lparr>colorIndex := colorIndex s1 + 1\<rparr>, [getSampleJoyStick]))
      | lightup \<Rightarrow>
          (False, s\<lparr>testState := testing\<rparr>,
           (if hasRed (actualColor s) then [TurnON_Booster_Red_LED] else []) @
           (if hasGreen (actualColor s) then [TurnON_Booster_Green_LED] else []) @
           (if hasBlue (actualColor s) then [TurnON_Booster_Blue_LED] else []))
      | testing \<Rightarrow>
          (case guess i (arrowPos s) (guessColor s) of (finished, ap, gc, ev) \<Rightarrow>
             (finished, s\<lparr>arrowPos := ap, guessColor := gc\<rparr>, ev)))"

text \<open>
  \<open>testFSM i nt result s\<close>: \<open>result\<close> is the content of \<open>*resultPointer\<close> before the call.
  The function returns \<open>(finished, content of *resultPointer after the call, variables,
  events)\<close>.
\<close>

definition testFSM :: "hal_in \<Rightarrow> bool \<Rightarrow> bool \<Rightarrow> testFSM_vars \<Rightarrow> bool \<times> bool \<times> testFSM_vars \<times> event list" where
  "testFSM i nt result s =
     (case testFSM_reset nt s of (s1, ev1) \<Rightarrow>
        (case testFSM_switch i s1 of (finished, s2, ev2) \<Rightarrow>
           (finished,
            (if finished then match (guessColor s2) (actualColor s2) else result),
            s2, ev1 @ ev2)))"

section \<open>The screen controller\<close>

datatype states = INCEPTION | OPENING | INSTRUCTIONS | TEST | TESTEND

text \<open>
  The \<open>static\<close> variables of \<open>ScreensFSM\<close> together with those of \<open>testFSM\<close>. The timer
  \<open>OST\<close> belongs to the HAL: it is seen through the events that initialise and start it and
  through the input \<open>timer_expired\<close>.
\<close>

record program_vars =
  state :: states
  newTest :: bool
  test_vars :: testFSM_vars

definition program_init :: program_vars where
  "program_init = \<lparr>state = INCEPTION, newTest = False, test_vars = testFSM_init\<rparr>"

text \<open>The output flags of \<open>ScreensFSM\<close>, with their defaults.\<close>

record outputs =
  drawOpeningScreen :: bool
  drawInstructionsScreen :: bool
  drawTestScreen :: bool
  drawEndScreen :: bool
  startSWTimer :: bool

definition default_outputs :: outputs where
  "default_outputs =
     \<lparr>drawOpeningScreen = False, drawInstructionsScreen = False, drawTestScreen = False,
      drawEndScreen = False, startSWTimer = False\<rparr>"

text \<open>
  The \<open>switch (state)\<close> of \<open>ScreensFSM\<close>. The automatic variable \<open>result\<close> has no initial
  value in C; its content at entry is the argument \<open>result0\<close>. The function returns
  \<open>(variables, output flags, result, events)\<close>.
\<close>

definition ScreensFSM_switch :: "hal_in \<Rightarrow> bool \<Rightarrow> program_vars \<Rightarrow> program_vars \<times> outputs \<times> bool \<times> event list" where
  "ScreensFSM_switch i result0 p =
     (case state p of
        INCEPTION \<Rightarrow>
          (p\<lparr>state := OPENING\<rparr>,
           default_outputs\<lparr>drawOpeningScreen := True, startSWTimer := True\<rparr>, result0, [])
      | OPENING \<Rightarrow>
          (if timer_expired i then
             (p\<lparr>state := INSTRUCTIONS\<rparr>, default_outputs\<lparr>drawInstructionsScreen := True\<rparr>,
              result0, [OneShotSWTimerExpired])
           else (p, default_outputs, result0, [OneShotSWTimerExpired]))
      | INSTRUCTIONS \<Rightarrow>
          (if bottom_pushed i then
             (p\<lparr>state := TEST, newTest := True\<rparr>, default_outputs\<lparr>drawTestScreen := True\<rparr>,
              result0, [Booster_Bottom_Button_Pushed])
           else (p, default_outputs, result0, [Booster_Bottom_Button_Pushed]))
      | TEST \<Rightarrow>
          (case testFSM i (newTest p) result0 (test_vars p) of (testFinished, result, tv, ev) \<Rightarrow>
             (let p1 = p\<lparr>test_vars := tv\<rparr> in
              if testFinished then
                (p1\<lparr>state := TESTEND, newTest := False\<rparr>,
                 default_outputs\<lparr>drawEndScreen := True, startSWTimer := True\<rparr>, result, ev)
              else (p1\<lparr>newTest := False\<rparr>, default_outputs, result, ev)))
      | TESTEND \<Rightarrow>
          (if timer_expired i then
             (p\<lparr>state := INSTRUCTIONS\<rparr>, default_outputs\<lparr>drawInstructionsScreen := True\<rparr>,
              result0, [OneShotSWTimerExpired])
           else (p, default_outputs, result0, [OneShotSWTimerExpired])))"

text \<open>The actions after the \<open>switch\<close>, in the order of the source.\<close>

definition ScreensFSM_actions :: "outputs \<Rightarrow> bool \<Rightarrow> event list" where
  "ScreensFSM_actions out result =
     (if startSWTimer out
      then [InitOneShotSWTimer TIMER32_1_BASE OPENING_WAIT, StartOneShotSWTimer] else []) @
     (if drawOpeningScreen out then DrawOpeningScreen else []) @
     (if drawInstructionsScreen out then DrawInstructionsScreen else []) @
     (if drawTestScreen out then DrawTestScreen else []) @
     (if drawEndScreen out then DrawEndTestScreen result else [])"

definition ScreensFSM :: "hal_in \<Rightarrow> bool \<Rightarrow> program_vars \<Rightarrow> program_vars \<times> event list" where
  "ScreensFSM i result0 p =
     (case ScreensFSM_switch i result0 p of (p', out, result, ev) \<Rightarrow>
        (p', ev @ ScreensFSM_actions out result))"

text \<open>
  After the initialisation of the board (HAL calls only), \<open>main\<close> calls \<open>ScreensFSM\<close>
  forever, starting from \<open>program_init\<close>. \<open>main_loop\<close> is a finite prefix of that loop:
  one call per element of the list, each with the inputs of its poll and the content of
  the automatic variable \<open>result\<close> at entry.
\<close>

fun main_loop :: "program_vars \<Rightarrow> (hal_in \<times> bool) list \<Rightarrow> program_vars \<times> event list" where
  "main_loop p [] = (p, [])"
| "main_loop p ((i, result0) # rest) =
     (case ScreensFSM i result0 p of (p1, ev1) \<Rightarrow>
        (case main_loop p1 rest of (p2, ev2) \<Rightarrow> (p2, ev1 @ ev2)))"

section \<open>Properties of the guess cycle\<close>

lemma uint_range_cases:
  "(1::uint) \<le> p \<Longrightarrow> p \<le> 4 \<Longrightarrow> p = 1 \<or> p = 2 \<or> p = 3 \<or> p = 4"
  by unat_arith

lemma guess_move_pos:
  "fst (guess_move i p) =
     (if bottom_pushed i then (if p + 1 > BOTTOM_OPTION_POS then TOP_OPTION_POS else p + 1) else p)"
  by (simp add: guess_move_def Let_def)

lemma guess_pos: "fst (snd (guess i p g)) = fst (guess_move i p)"
  by (simp add: guess_def split: prod.splits)

lemma guess_select_only:
  "\<not> bottom_pushed i \<Longrightarrow> top_pushed i \<Longrightarrow>
   guess i p g =
     (let ev = [Booster_Bottom_Button_Pushed, Booster_Top_Button_Pushed, LCDDrawChar p 9 (CHR ''*'')]
      in if p - TOP_OPTION_POS = RED then (False, p, g\<lparr>hasRed := True\<rparr>, ev)
         else if p - TOP_OPTION_POS = GREEN then (False, p, g\<lparr>hasGreen := True\<rparr>, ev)
         else if p - TOP_OPTION_POS = BLUE then (False, p, g\<lparr>hasBlue := True\<rparr>, ev)
         else (True, p, g, ev))"
  by (simp add: guess_def guess_move_def guess_select_def Let_def)

text \<open>
  Claim C5. For all colour mixes \<open>a\<close> and \<open>b\<close>, \<open>match a b\<close> equals \<open>match b a\<close>, and
  \<open>match a a\<close> is true: \<open>match\<close> is the component-wise equality of the three flags.
\<close>

theorem match_symmetric_reflexive:
  "match a b = match b a \<and> match a a \<and>
   match a b = (hasRed a = hasRed b \<and> hasGreen a = hasGreen b \<and> hasBlue a = hasBlue b)"
  by (auto simp: match_def)

text \<open>
  Claim C4. For every arrow position between the first selectable row and the End row,
  one call of \<open>guess\<close> with the move button pushed advances the position by exactly one
  row, wrapping from the End row to the first row; without the move button the position
  stays. The position handed back to the caller is again between the first row and the
  End row.
\<close>

theorem guess_arrowPos_in_range:
  assumes "TOP_OPTION_POS \<le> p" and "p \<le> BOTTOM_OPTION_POS"
  shows "fst (snd (guess i p g)) =
           (if bottom_pushed i then (if p = BOTTOM_OPTION_POS then TOP_OPTION_POS else p + 1) else p)
         \<and> unat (fst (snd (guess i p g))) =
           (if bottom_pushed i then (if p = BOTTOM_OPTION_POS then 1 else unat p + 1) else unat p)
         \<and> TOP_OPTION_POS \<le> fst (snd (guess i p g))
         \<and> fst (snd (guess i p g)) \<le> BOTTOM_OPTION_POS"
proof -
  from assms have "p = 1 \<or> p = 2 \<or> p = 3 \<or> p = 4"
    by (simp add: TOP_OPTION_POS_def BOTTOM_OPTION_POS_def uint_range_cases)
  then show ?thesis
    unfolding guess_pos guess_move_pos TOP_OPTION_POS_def BOTTOM_OPTION_POS_def
    by (elim disjE) simp_all
qed

theorem guess_arrowPos_in_range_witness:
  "TOP_OPTION_POS \<le> 4 \<and> 4 \<le> BOTTOM_OPTION_POS
   \<and> fst (snd (guess \<lparr>joyStick_vx = 0, joyStick_vy = 0, bottom_pushed = True, top_pushed = False,
        timer_expired = False\<rparr> 4 \<lparr>hasRed = False, hasGreen = False, hasBlue = False\<rparr>)) = 1"
  using guess_arrowPos_in_range [of 4 "\<lparr>joyStick_vx = 0, joyStick_vy = 0, bottom_pushed = True,
       top_pushed = False, timer_expired = False\<rparr>" "\<lparr>hasRed = False, hasGreen = False, hasBlue = False\<rparr>"]
  by (simp add: TOP_OPTION_POS_def BOTTOM_OPTION_POS_def)

text \<open>
  Claim C6. Selecting the same colour row a second time changes nothing: for every guessed
  mix and every row of Red, Green or Blue, a poll of \<open>guess\<close> with the select button
  pushed (and the move button not) sets the flag of the row and no other flag, does not
  move the arrow and does not finish the test; a second such poll at the same row returns
  the guessed mix of the first.
\<close>

theorem guess_select_idempotent:
  assumes "top_pushed i1" and "\<not> bottom_pushed i1"
    and "top_pushed i2" and "\<not> bottom_pushed i2"
    and "p = TOP_OPTION_POS + RED \<or> p = TOP_OPTION_POS + GREEN \<or> p = TOP_OPTION_POS + BLUE"
  shows "fst (snd (snd (guess i2 p (fst (snd (snd (guess i1 p g))))))) =
           fst (snd (snd (guess i1 p g)))
       \<and> fst (snd (snd (guess i1 p g))) =
           (if p = TOP_OPTION_POS + RED then g\<lparr>hasRed := True\<rparr>
            else if p = TOP_OPTION_POS + GREEN then g\<lparr>hasGreen := True\<rparr>
            else g\<lparr>hasBlue := True\<rparr>)
       \<and> fst (snd (guess i1 p g)) = p
       \<and> \<not> fst (guess i1 p g)
       \<and> \<not> fst (guess i2 p (fst (snd (snd (guess i1 p g)))))"
  using assms(5)
  unfolding guess_select_only [OF assms(2,1)] guess_select_only [OF assms(4,3)]
  by (elim disjE) (simp_all add: TOP_OPTION_POS_def RED_def GREEN_def BLUE_def Let_def)

theorem guess_select_idempotent_witness:
  "top_pushed \<lparr>joyStick_vx = 0, joyStick_vy = 0, bottom_pushed = False, top_pushed = True,
       timer_expired = False\<rparr>
   \<and> \<not> bottom_pushed \<lparr>joyStick_vx = 0, joyStick_vy = 0, bottom_pushed = False,
       top_pushed = True, timer_expired = False\<rparr>
   \<and> top_pushed \<lparr>joyStick_vx = 7, joyStick_vy = 9, bottom_pushed = False, top_pushed = True,
       timer_expired = True\<rparr>
   \<and> \<not> bottom_pushed \<lparr>joyStick_vx = 7, joyStick_vy = 9, bottom_pushed = False,
       top_pushed = True, timer_expired = True\<rparr>
   \<and> (2::uint) = TOP_OPTION_POS + GREEN
   \<and> fst (snd (snd (guess \<lparr>joyStick_vx = 7, joyStick_vy = 9, bottom_pushed = False,
          top_pushed = True, timer_expired = True\<rparr> 2
            (fst (snd (snd (guess \<lparr>joyStick_vx = 0, joyStick_vy = 0, bottom_pushed = False,
               top_pushed = True, timer_expired = False\<rparr> 2
                 \<lparr>hasRed = True, hasGreen = False, hasBlue = False\<rparr>)))))))
     = \<lparr>hasRed = True, hasGreen = True, hasBlue = False\<rparr>"
  using guess_select_idempotent [of
      "\<lparr>joyStick_vx = 0, joyStick_vy = 0, bottom_pushed = False, top_pushed = True,
         timer_expired = False\<rparr>"
      "\<lparr>joyStick_vx = 7, joyStick_vy = 9, bottom_pushed = False, top_pushed = True,
         timer_expired = True\<rparr>"
      2 "\<lparr>hasRed = True, hasGreen = False, hasBlue = False\<rparr>"]
  by (simp add: guess_def guess_move_def guess_select_def
      TOP_OPTION_POS_def RED_def GREEN_def BLUE_def)

text \<open>
  Claim C7. When the move button and the select button are both pushed in the same call of
  \<open>guess\<close>, the arrow moves first and the selection is made at the row the arrow has
  after the move: the star is drawn there, and the flag set (or the end of the test) is the
  one of that row, for every starting position. From rows 1, 2, 3 and 4 the call selects
  Green, Blue, End and Red.
\<close>

theorem guess_move_then_select:
  assumes "bottom_pushed i" and "top_pushed i"
  shows "guess i p g =
           (let p' = (if p + 1 > BOTTOM_OPTION_POS then TOP_OPTION_POS else p + 1);
                ev = [Booster_Bottom_Button_Pushed, LCDDrawChar p 1 (CHR '' ''),
                      LCDDrawChar p' 1 (CHR ''>''),
                      Booster_Top_Button_Pushed, LCDDrawChar p' 9 (CHR ''*'')]
            in if p' - TOP_OPTION_POS = RED then (False, p', g\<lparr>hasRed := True\<rparr>, ev)
               else if p' - TOP_OPTION_POS = GREEN then (False, p', g\<lparr>hasGreen := True\<rparr>, ev)
               else if p' - TOP_OPTION_POS = BLUE then (False, p', g\<lparr>hasBlue := True\<rparr>, ev)
               else (True, p', g, ev))
       \<and> fst (guess i 1 g) = False \<and> fst (snd (snd (guess i 1 g))) = g\<lparr>hasGreen := True\<rparr>
       \<and> fst (guess i 2 g) = False \<and> fst (snd (snd (guess i 2 g))) = g\<lparr>hasBlue := True\<rparr>
       \<and> fst (guess i 3 g) = True \<and> fst (snd (snd (guess i 3 g))) = g
       \<and> fst (guess i 4 g) = False \<and> fst (snd (snd (guess i 4 g))) = g\<lparr>hasRed := True\<rparr>"
  using assms
  by (simp add: guess_def guess_move_def guess_select_def Let_def
      TOP_OPTION_POS_def BOTTOM_OPTION_POS_def RED_def GREEN_def BLUE_def)

theorem guess_move_then_select_witness:
  "bottom_pushed \<lparr>joyStick_vx = 0, joyStick_vy = 0, bottom_pushed = True, top_pushed = True,
       timer_expired = False\<rparr>
   \<and> top_pushed \<lparr>joyStick_vx = 0, joyStick_vy = 0, bottom_pushed = True, top_pushed = True,
       timer_expired = False\<rparr>
   \<and> guess \<lparr>joyStick_vx = 0, joyStick_vy = 0, bottom_pushed = True, top_pushed = True,
       timer_expired = False\<rparr> 3 \<lparr>hasRed = True, hasGreen = False, hasBlue = False\<rparr>
     = (True, 4, \<lparr>hasRed = True, hasGreen = False, hasBlue = False\<rparr>,
        [Booster_Bottom_Button_Pushed, LCDDrawChar 3 1 (CHR '' ''), LCDDrawChar 4 1 (CHR ''>''),
         Booster_Top_Button_Pushed, LCDDrawChar 4 9 (CHR ''*'')])"
  using guess_move_then_select [of "\<lparr>joyStick_vx = 0, joyStick_vy = 0, bottom_pushed = True,
       top_pushed = True, timer_expired = False\<rparr>" 3 "\<lparr>hasRed = True, hasGreen = False, hasBlue = False\<rparr>"]
  by (simp add: TOP_OPTION_POS_def BOTTOM_OPTION_POS_def RED_def GREEN_def BLUE_def)

section \<open>Properties of the test controller\<close>

lemma match_componentwise:
  "match a b = (hasRed a = hasRed b \<and> hasGreen a = hasGreen b \<and> hasBlue a = hasBlue b)"
  by (simp add: match_def)

lemma guess_select_finished_keeps_guessColor:
  "fst (guess_select i p g) \<Longrightarrow> fst (snd (guess_select i p g)) = g"
  by (auto simp: guess_select_def Let_def split: if_splits)

lemma guess_finished_keeps_guessColor:
  "fst (guess i p g) \<Longrightarrow> fst (snd (snd (guess i p g))) = g"
  using guess_select_finished_keeps_guessColor [of i "fst (guess_move i p)" g]
  by (simp add: guess_def split: prod.splits)

lemma testFSM_reset_False: "testFSM_reset False s = (s, [])"
  by (simp add: testFSM_reset_def)

lemma testFSM_switch_testing:
  "testState s = testing \<Longrightarrow>
   testFSM_switch i s =
     (case guess i (arrowPos s) (guessColor s) of (fin, ap, gc, ev) \<Rightarrow>
        (fin, s\<lparr>arrowPos := ap, guessColor := gc\<rparr>, ev))"
  by (simp add: testFSM_switch_def)

lemma randomBit_parity:
  "randomBit i = (odd (joyStick_vx i) \<noteq> odd (joyStick_vy i))"
  by (cases "odd (joyStick_vx i)"; cases "odd (joyStick_vy i)")
     (simp_all add: randomBit_def mod_2_eq_odd)

lemma testFSM_newTest_poll:
  "testFSM i True r s =
     (False, r,
      s\<lparr>testState := setup_state, colorIndex := RED + 1, arrowPos := TOP_OPTION_POS,
        guessColor := \<lparr>hasRed = False, hasGreen = False, hasBlue = False\<rparr>,
        actualColor := (actualColor s)\<lparr>hasRed := randomBit i\<rparr>\<rparr>,
      [TurnOFF_Booster_Blue_LED, TurnOFF_Booster_Green_LED, TurnOFF_Booster_Red_LED,
       getSampleJoyStick])"
  by (simp add: testFSM_def testFSM_reset_def testFSM_switch_def RED_def)

lemma testFSM_setup_poll:
  "testState s = setup_state \<Longrightarrow>
   testFSM i False r s =
     (False, r,
      (if colorIndex s = RED then s\<lparr>actualColor := (actualColor s)\<lparr>hasRed := randomBit i\<rparr>\<rparr>
       else if colorIndex s = GREEN then s\<lparr>actualColor := (actualColor s)\<lparr>hasGreen := randomBit i\<rparr>\<rparr>
       else if colorIndex s = BLUE then s\<lparr>actualColor := (actualColor s)\<lparr>hasBlue := randomBit i\<rparr>\<rparr>
       else s\<lparr>testState := lightup\<rparr>)\<lparr>colorIndex := colorIndex s + 1\<rparr>,
      [getSampleJoyStick])"
  by (simp add: testFSM_def testFSM_reset_def testFSM_switch_def Let_def)

lemma testFSM_lightup_poll:
  "testState s = lightup \<Longrightarrow>
   testFSM i False r s =
     (False, r, s\<lparr>testState := testing\<rparr>,
      (if hasRed (actualColor s) then [TurnON_Booster_Red_LED] else []) @
      (if hasGreen (actualColor s) then [TurnON_Booster_Green_LED] else []) @
      (if hasBlue (actualColor s) then [TurnON_Booster_Blue_LED] else []))"
  by (simp add: testFSM_def testFSM_reset_def testFSM_switch_def)

text \<open>
  What a call of \<open>testFSM\<close> with \<open>newTest\<close> true does. After the reset block the guessed
  mix is all-false, \<open>arrowPos\<close> is the first selectable row, the state is the first one
  with the cursor at \<open>RED\<close>, and the three LEDs are commanded off (blue, green, red),
  whatever the variables held before. The block has no assignment to the actual mix, which
  keeps the flags of the previous test. The rest of the same call then stores the first
  random bit in its red flag.
\<close>

theorem testFSM_reset_newTest:
  "testFSM_reset True s =
     (s\<lparr>testState := setup_state, colorIndex := RED, arrowPos := TOP_OPTION_POS,
        guessColor := \<lparr>hasRed = False, hasGreen = False, hasBlue = False\<rparr>\<rparr>,
      [TurnOFF_Booster_Blue_LED, TurnOFF_Booster_Green_LED, TurnOFF_Booster_Red_LED])
   \<and> guessColor (fst (testFSM_reset True s)) = \<lparr>hasRed = False, hasGreen = False, hasBlue = False\<rparr>
   \<and> arrowPos (fst (testFSM_reset True s)) = TOP_OPTION_POS
   \<and> actualColor (fst (testFSM_reset True s)) = actualColor s
   \<and> testFSM i True r s =
       (False, r,
        s\<lparr>testState := setup_state, colorIndex := RED + 1, arrowPos := TOP_OPTION_POS,
          guessColor := \<lparr>hasRed = False, hasGreen = False, hasBlue = False\<rparr>,
          actualColor := (actualColor s)\<lparr>hasRed := randomBit i\<rparr>\<rparr>,
        [TurnOFF_Booster_Blue_LED, TurnOFF_Booster_Green_LED, TurnOFF_Booster_Red_LED,
         getSampleJoyStick])"
  by (simp add: testFSM_def testFSM_reset_def testFSM_switch_def RED_def)

text \<open>
  A first game from the start of the program: opening screen, instructions, a test whose
  three random bits are true, the user selecting Red, Green and Blue and then End, the
  end screen, and the bottom button on the instructions screen. The next poll calls
  \<open>testFSM\<close> with \<open>newTest\<close> true on the variables the first test has left.
\<close>

lemma main_loop_reaches_second_test:
  "fst (main_loop program_init
       [(\<lparr>joyStick_vx = 0, joyStick_vy = 0, bottom_pushed = False, top_pushed = False, timer_expired = False\<rparr>,
         False),
        (\<lparr>joyStick_vx = 0, joyStick_vy = 0, bottom_pushed = False, top_pushed = False, timer_expired = True\<rparr>,
         False),
        (\<lparr>joyStick_vx = 0, joyStick_vy = 0, bottom_pushed = True, top_pushed = False, timer_expired = False\<rparr>,
         False),
        (\<lparr>joyStick_vx = 1, joyStick_vy = 0, bottom_pushed = False, top_pushed = False, timer_expired = False\<rparr>,
         False),
        (\<lparr>joyStick_vx = 3, joyStick_vy = 0, bottom_pushed = False, top_pushed = False, timer_expired = False\<rparr>,
         False),
        (\<lparr>joyStick_vx = 0, joyStick_vy = 5, bottom_pushed = False, top_pushed = False, timer_expired = False\<rparr>,
         False),
        (\<lparr>joyStick_vx = 2, joyStick_vy = 2, bottom_pushed = False, top_pushed = False, timer_expired = False\<rparr>,
         False),
        (\<lparr>joyStick_vx = 0, joyStick_vy = 0, bottom_pushed = False, top_pushed = False, timer_expired = False\<rparr>,
         False),
        (\<lparr>joyStick_vx = 0, joyStick_vy = 0, bottom_pushed = False, top_pushed = True, timer_expired = False\<rparr>,
         False),
        (\<lparr>joyStick_vx = 0, joyStick_vy = 0, bottom_pushed = True, top_pushed = True, timer_expired = False\<rparr>,
         False),
        (\<lparr>joyStick_vx = 0, joyStick_vy = 0, bottom_pushed = True, top_pushed = True, timer_expired = False\<rparr>,
         False),
        (\<lparr>joyStick_vx = 0, joyStick_vy = 0, bottom_pushed = True, top_pushed = True, timer_expired = False\<rparr>,
         False),
        (\<lparr>joyStick_vx = 0, joyStick_vy = 0, bottom_pushed = False, top_pushed = False, timer_expired = True\<rparr>,
         False),
        (\<lparr>joyStick_vx = 0, joyStick_vy = 0, bottom_pushed = True, top_pushed = False, timer_expired = False\<rparr>,
         False)])
   = \<lparr>state = TEST, newTest = True,
      test_vars = \<lparr>actualColor = \<lparr>hasRed = True, hasGreen = True, hasBlue = True\<rparr>,
                   guessColor = \<lparr>hasRed = True, hasGreen = True, hasBlue = True\<rparr>,
                   colorIndex = 4, testState = testing, arrowPos = 4\<rparr>\<rparr>"
  by (simp add: ScreensFSM_def ScreensFSM_switch_def ScreensFSM_actions_def default_outputs_def
      program_init_def testFSM_init_def testFSM_def testFSM_reset_def testFSM_switch_def
      randomBit_def guess_def guess_move_def guess_select_def match_def
      TOP_OPTION_POS_def BOTTOM_OPTION_POS_def RED_def GREEN_def BLUE_def)

text \<open>
  Claim C1 says that after the reset block of a call with \<open>newTest\<close> true both the guessed
  and the actual mix are all-false. The comment above the block in the source says that all
  the static variables should be reset on a new test, and the block resets the guessed mix,
  but it has no assignment to the actual mix. On the variables left by the first game
  above (actual mix all-true), the reset block leaves the actual mix all-true, so it is not
  all-false, and the whole call leaves its green and blue flags true.
\<close>

theorem testFSM_reset_keeps_actualColor:
  "actualColor (fst (testFSM_reset True
      \<lparr>actualColor = \<lparr>hasRed = True, hasGreen = True, hasBlue = True\<rparr>,
       guessColor = \<lparr>hasRed = True, hasGreen = True, hasBlue = True\<rparr>,
       colorIndex = 4, testState = testing, arrowPos = 4\<rparr>))
     = \<lparr>hasRed = True, hasGreen = True, hasBlue = True\<rparr>
   \<and> actualColor (fst (testFSM_reset True
      \<lparr>actualColor = \<lparr>hasRed = True, hasGreen = True, hasBlue = True\<rparr>,
       guessColor = \<lparr>hasRed = True, hasGreen = True, hasBlue = True\<rparr>,
       colorIndex = 4, testState = testing, arrowPos = 4\<rparr>))
     \<noteq> \<lparr>hasRed = False, hasGreen = False, hasBlue = False\<rparr>
   \<and> actualColor (fst (snd (snd (testFSM
      \<lparr>joyStick_vx = 0, joyStick_vy = 0, bottom_pushed = False, top_pushed = False,
        timer_expired = False\<rparr> True False
      \<lparr>actualColor = \<lparr>hasRed = True, hasGreen = True, hasBlue = True\<rparr>,
       guessColor = \<lparr>hasRed = True, hasGreen = True, hasBlue = True\<rparr>,
       colorIndex = 4, testState = testing, arrowPos = 4\<rparr>))))
     = \<lparr>hasRed = False, hasGreen = True, hasBlue = True\<rparr>"
  by (simp add: testFSM_def testFSM_reset_def testFSM_switch_def RED_def randomBit_def)

text \<open>
  Claim C3. In three polls of \<open>testFSM\<close>, the first with \<open>newTest\<close> true and the next two
  without, each poll reads the joystick once and assigns one random bit to one flag of the
  actual mix: the first to red, the second to green, the third to blue, leaving the other
  two flags as they were. After the three polls each flag is the bit of its poll. The bit
  is the exclusive-or of the parities of the two sampled values: it is true exactly when
  one of them is odd and the other even.
\<close>

theorem testFSM_setup_three_polls:
  assumes "testFSM i1 True r1 s0 = (f1, r1', s1, e1)"
    and "testFSM i2 False r2 s1 = (f2, r2', s2, e2)"
    and "testFSM i3 False r3 s2 = (f3, r3', s3, e3)"
  shows "actualColor s1 = (actualColor s0)\<lparr>hasRed := randomBit i1\<rparr>
       \<and> actualColor s2 = (actualColor s1)\<lparr>hasGreen := randomBit i2\<rparr>
       \<and> actualColor s3 = (actualColor s2)\<lparr>hasBlue := randomBit i3\<rparr>
       \<and> actualColor s3 = \<lparr>hasRed = randomBit i1, hasGreen = randomBit i2, hasBlue = randomBit i3\<rparr>
       \<and> e1 = [TurnOFF_Booster_Blue_LED, TurnOFF_Booster_Green_LED, TurnOFF_Booster_Red_LED,
               getSampleJoyStick]
       \<and> e2 = [getSampleJoyStick] \<and> e3 = [getSampleJoyStick]
       \<and> testState s1 = setup_state \<and> testState s2 = setup_state \<and> testState s3 = setup_state
       \<and> \<not> f1 \<and> \<not> f2 \<and> \<not> f3
       \<and> randomBit i1 = (odd (joyStick_vx i1) \<noteq> odd (joyStick_vy i1))
       \<and> randomBit i2 = (odd (joyStick_vx i2) \<noteq> odd (joyStick_vy i2))
       \<and> randomBit i3 = (odd (joyStick_vx i3) \<noteq> odd (joyStick_vy i3))"
proof -
  from assms(1) have s1: "s1 = s0\<lparr>testState := setup_state, colorIndex := RED + 1,
        arrowPos := TOP_OPTION_POS,
        guessColor := \<lparr>hasRed = False, hasGreen = False, hasBlue = False\<rparr>,
        actualColor := (actualColor s0)\<lparr>hasRed := randomBit i1\<rparr>\<rparr>"
    and o1: "\<not> f1" "e1 = [TurnOFF_Booster_Blue_LED, TurnOFF_Booster_Green_LED,
        TurnOFF_Booster_Red_LED, getSampleJoyStick]"
    by (simp_all add: testFSM_newTest_poll)
  have t1: "testState s1 = setup_state" and c1: "colorIndex s1 = GREEN"
    by (simp_all add: s1 RED_def GREEN_def)
  from assms(2) have s2: "s2 = s1\<lparr>actualColor := (actualColor s1)\<lparr>hasGreen := randomBit i2\<rparr>,
        colorIndex := GREEN + 1\<rparr>"
    and o2: "\<not> f2" "e2 = [getSampleJoyStick]"
    by (simp_all add: testFSM_setup_poll [OF t1] c1 RED_def GREEN_def)
  have t2: "testState s2 = setup_state" and c2: "colorIndex s2 = BLUE"
    by (simp_all add: s2 t1 GREEN_def BLUE_def)
  from assms(3) have s3: "s3 = s2\<lparr>actualColor := (actualColor s2)\<lparr>hasBlue := randomBit i3\<rparr>,
        colorIndex := BLUE + 1\<rparr>"
    and o3: "\<not> f3" "e3 = [getSampleJoyStick]"
    by (simp_all add: testFSM_setup_poll [OF t2] c2 RED_def GREEN_def BLUE_def)
  have a1: "actualColor s1 = (actualColor s0)\<lparr>hasRed := randomBit i1\<rparr>"
    by (simp add: s1)
  have a2: "actualColor s2 = (actualColor s1)\<lparr>hasGreen := randomBit i2\<rparr>"
    by (simp add: s2)
  have a3: "actualColor s3 = (actualColor s2)\<lparr>hasBlue := randomBit i3\<rparr>"
    by (simp add: s3)
  have a: "actualColor s3 = \<lparr>hasRed = randomBit i1, hasGreen = randomBit i2, hasBlue = randomBit i3\<rparr>"
    by (simp add: a1 a2 a3)
  have t3: "testState s3 = setup_state"
    by (simp add: s3 t2)
  show ?thesis
    using a1 a2 a3 a o1 o2 o3 t1 t2 t3 by (simp only: randomBit_parity simp_thms)
qed

theorem testFSM_setup_three_polls_witness:
  "testFSM
       \<lparr>joyStick_vx = 1, joyStick_vy = 0, bottom_pushed = False, top_pushed = False, timer_expired = False\<rparr>
       True False
       \<lparr>actualColor = \<lparr>hasRed = False, hasGreen = True, hasBlue = False\<rparr>,
        guessColor = \<lparr>hasRed = True, hasGreen = True, hasBlue = True\<rparr>,
        colorIndex = 4, testState = testing, arrowPos = 4\<rparr>
     = (False, False,
        \<lparr>actualColor = \<lparr>hasRed = True, hasGreen = True, hasBlue = False\<rparr>,
         guessColor = \<lparr>hasRed = False, hasGreen = False, hasBlue = False\<rparr>,
         colorIndex = 1, testState = setup_state, arrowPos = 1\<rparr>,
        [TurnOFF_Booster_Blue_LED, TurnOFF_Booster_Green_LED, TurnOFF_Booster_Red_LED,
        getSampleJoyStick])
   \<and> testFSM
       \<lparr>joyStick_vx = 2, joyStick_vy = 4, bottom_pushed = False, top_pushed = False, timer_expired = False\<rparr>
       False False
       \<lparr>actualColor = \<lparr>hasRed = True, hasGreen = True, hasBlue = False\<rparr>,
        guessColor = \<lparr>hasRed = False, hasGreen = False, hasBlue = False\<rparr>,
        colorIndex = 1, testState = setup_state, arrowPos = 1\<rparr>
     = (False, False,
        \<lparr>actualColor = \<lparr>hasRed = True, hasGreen = False, hasBlue = False\<rparr>,
         guessColor = \<lparr>hasRed = False, hasGreen = False, hasBlue = False\<rparr>,
         colorIndex = 2, testState = setup_state, arrowPos = 1\<rparr>,
        [getSampleJoyStick])
   \<and> testFSM
       \<lparr>joyStick_vx = 3, joyStick_vy = 6, bottom_pushed = False, top_pushed = False, timer_expired = False\<rparr>
       False False
       \<lparr>actualColor = \<lparr>hasRed = True, hasGreen = False, hasBlue = False\<rparr>,
        guessColor = \<lparr>hasRed = False, hasGreen = False, hasBlue = False\<rparr>,
        colorIndex = 2, testState = setup_state, arrowPos = 1\<rparr>
     = (False, False,
        \<lparr>actualColor = \<lparr>hasRed = True, hasGreen = False, hasBlue = True\<rparr>,
         guessColor = \<lparr>hasRed = False, hasGreen = False, hasBlue = False\<rparr>,
         colorIndex = 3, testState = setup_state, arrowPos = 1\<rparr>,
        [getSampleJoyStick])
   \<and> actualColor
       \<lparr>actualColor = \<lparr>hasRed = True, hasGreen = False, hasBlue = True\<rparr>,
        guessColor = \<lparr>hasRed = False, hasGreen = False, hasBlue = False\<rparr>,
        colorIndex = 3, testState = setup_state, arrowPos = 1\<rparr>
     = \<lparr>hasRed = True, hasGreen = False, hasBlue = True\<rparr>"
proof -
  have p1:
    "testFSM
       \<lparr>joyStick_vx = 1, joyStick_vy = 0, bottom_pushed = False, top_pushed = False, timer_expired = False\<rparr>
       True False
       \<lparr>actualColor = \<lparr>hasRed = False, hasGreen = True, hasBlue = False\<rparr>,
        guessColor = \<lparr>hasRed = True, hasGreen = True, hasBlue = True\<rparr>,
        colorIndex = 4, testState = testing, arrowPos = 4\<rparr>
     = (False, False,
        \<lparr>actualColor = \<lparr>hasRed = True, hasGreen = True, hasBlue = False\<rparr>,
         guessColor = \<lparr>hasRed = False, hasGreen = False, hasBlue = False\<rparr>,
         colorIndex = 1, testState = setup_state, arrowPos = 1\<rparr>,
        [TurnOFF_Booster_Blue_LED, TurnOFF_Booster_Green_LED, TurnOFF_Booster_Red_LED,
        getSampleJoyStick])"
    by (simp add: testFSM_def testFSM_reset_def testFSM_switch_def randomBit_def
        RED_def GREEN_def BLUE_def TOP_OPTION_POS_def)
  have p2:
    "testFSM
       \<lparr>joyStick_vx = 2, joyStick_vy = 4, bottom_pushed = False, top_pushed = False, timer_expired = False\<rparr>
       False False
       \<lparr>actualColor = \<lparr>hasRed = True, hasGreen = True, hasBlue = False\<rparr>,
        guessColor = \<lparr>hasRed = False, hasGreen = False, hasBlue = False\<rparr>,
        colorIndex = 1, testState = setup_state, arrowPos = 1\<rparr>
     = (False, False,
        \<lparr>actualColor = \<lparr>hasRed = True, hasGreen = False, hasBlue = False\<rparr>,
         guessColor = \<lparr>hasRed = False, hasGreen = False, hasBlue = False\<rparr>,
         colorIndex = 2, testState = setup_state, arrowPos = 1\<rparr>,
        [getSampleJoyStick])"
    by (simp add: testFSM_def testFSM_reset_def testFSM_switch_def randomBit_def
        RED_def GREEN_def BLUE_def TOP_OPTION_POS_def)
  have p3:
    "testFSM
       \<lparr>joyStick_vx = 3, joyStick_vy = 6, bottom_pushed = False, top_pushed = False, timer_expired = False\<rparr>
       False False
       \<lparr>actualColor = \<lparr>hasRed = True, hasGreen = False, hasBlue = False\<rparr>,
        guessColor = \<lparr>hasRed = False, hasGreen = False, hasBlue = False\<rparr>,
        colorIndex = 2, testState = setup_state, arrowPos = 1\<rparr>
     = (False, False,
        \<lparr>actualColor = \<lparr>hasRed = True, hasGreen = False, hasBlue = True\<rparr>,
         guessColor = \<lparr>hasRed = False, hasGreen = False, hasBlue = False\<rparr>,
         colorIndex = 3, testState = setup_state, arrowPos = 1\<rparr>,
        [getSampleJoyStick])"
    by (simp add: testFSM_def testFSM_reset_def testFSM_switch_def randomBit_def
        RED_def GREEN_def BLUE_def TOP_OPTION_POS_def)
  note polls = testFSM_setup_three_polls [OF p1 p2 p3]
  from polls have c:
    "actualColor
       \<lparr>actualColor = \<lparr>hasRed = True, hasGreen = False, hasBlue = True\<rparr>,
        guessColor = \<lparr>hasRed = False, hasGreen = False, hasBlue = False\<rparr>,
        colorIndex = 3, testState = setup_state, arrowPos = 1\<rparr>
     = \<lparr>hasRed = True, hasGreen = False, hasBlue = True\<rparr>"
    by simp
  show ?thesis
    by (intro conjI p1 p2 p3 c)
qed

text \<open>
  Claim C10. From a new test, \<open>testFSM\<close> stays in its first state for four polls. The
  first three assign red, green and blue. The fourth reads the joystick once more, leaves
  the actual mix as it is and only moves to \<open>lightup\<close>, with the cursor at 4. No LED is
  turned on in these four polls; the fifth poll turns on the LEDs of the flags that are true
  and moves to \<open>testing\<close>.
\<close>

theorem testFSM_setup_takes_four_polls:
  assumes "testFSM i1 True r1 s0 = (f1, r1', s1, e1)"
    and "testFSM i2 False r2 s1 = (f2, r2', s2, e2)"
    and "testFSM i3 False r3 s2 = (f3, r3', s3, e3)"
    and "testFSM i4 False r4 s3 = (f4, r4', s4, e4)"
    and "testFSM i5 False r5 s4 = (f5, r5', s5, e5)"
  shows "testState s1 = setup_state \<and> testState s2 = setup_state \<and> testState s3 = setup_state
       \<and> testState s4 = lightup \<and> testState s5 = testing
       \<and> e1 = [TurnOFF_Booster_Blue_LED, TurnOFF_Booster_Green_LED, TurnOFF_Booster_Red_LED,
               getSampleJoyStick]
       \<and> e2 = [getSampleJoyStick] \<and> e3 = [getSampleJoyStick] \<and> e4 = [getSampleJoyStick]
       \<and> s4 = s3\<lparr>testState := lightup, colorIndex := 4\<rparr>
       \<and> actualColor s4 = \<lparr>hasRed = randomBit i1, hasGreen = randomBit i2, hasBlue = randomBit i3\<rparr>
       \<and> e5 = (if randomBit i1 then [TurnON_Booster_Red_LED] else []) @
              (if randomBit i2 then [TurnON_Booster_Green_LED] else []) @
              (if randomBit i3 then [TurnON_Booster_Blue_LED] else [])
       \<and> s5 = s4\<lparr>testState := testing\<rparr>
       \<and> TurnON_Booster_Red_LED \<notin> set (e1 @ e2 @ e3 @ e4)
       \<and> TurnON_Booster_Green_LED \<notin> set (e1 @ e2 @ e3 @ e4)
       \<and> TurnON_Booster_Blue_LED \<notin> set (e1 @ e2 @ e3 @ e4)"
proof -
  from assms(1) have s1: "s1 = s0\<lparr>testState := setup_state, colorIndex := RED + 1,
        arrowPos := TOP_OPTION_POS,
        guessColor := \<lparr>hasRed = False, hasGreen = False, hasBlue = False\<rparr>,
        actualColor := (actualColor s0)\<lparr>hasRed := randomBit i1\<rparr>\<rparr>"
    and e1: "e1 = [TurnOFF_Booster_Blue_LED, TurnOFF_Booster_Green_LED,
        TurnOFF_Booster_Red_LED, getSampleJoyStick]"
    by (simp_all add: testFSM_newTest_poll)
  have t1: "testState s1 = setup_state" and c1: "colorIndex s1 = GREEN"
    by (simp_all add: s1 RED_def GREEN_def)
  from assms(2) have s2: "s2 = s1\<lparr>actualColor := (actualColor s1)\<lparr>hasGreen := randomBit i2\<rparr>,
        colorIndex := GREEN + 1\<rparr>"
    and e2: "e2 = [getSampleJoyStick]"
    by (simp_all add: testFSM_setup_poll [OF t1] c1 RED_def GREEN_def)
  have t2: "testState s2 = setup_state" and c2: "colorIndex s2 = BLUE"
    by (simp_all add: s2 t1 GREEN_def BLUE_def)
  from assms(3) have s3: "s3 = s2\<lparr>actualColor := (actualColor s2)\<lparr>hasBlue := randomBit i3\<rparr>,
        colorIndex := BLUE + 1\<rparr>"
    and e3: "e3 = [getSampleJoyStick]"
    by (simp_all add: testFSM_setup_poll [OF t2] c2 RED_def GREEN_def BLUE_def)
  have t3: "testState s3 = setup_state" and c3: "colorIndex s3 = 3"
    by (simp_all add: s3 t2 BLUE_def)
  have a3: "actualColor s3 = \<lparr>hasRed = randomBit i1, hasGreen = randomBit i2, hasBlue = randomBit i3\<rparr>"
    by (simp add: s3 s2 s1)
  from assms(4) have s4: "s4 = s3\<lparr>testState := lightup, colorIndex := 4\<rparr>"
    and e4: "e4 = [getSampleJoyStick]"
    by (simp_all add: testFSM_setup_poll [OF t3] c3 RED_def GREEN_def BLUE_def)
  have t4: "testState s4 = lightup"
    and a4: "actualColor s4 = \<lparr>hasRed = randomBit i1, hasGreen = randomBit i2, hasBlue = randomBit i3\<rparr>"
    by (simp_all add: s4 a3)
  from assms(5) have s5: "s5 = s4\<lparr>testState := testing\<rparr>"
    and e5: "e5 = (if randomBit i1 then [TurnON_Booster_Red_LED] else []) @
              (if randomBit i2 then [TurnON_Booster_Green_LED] else []) @
              (if randomBit i3 then [TurnON_Booster_Blue_LED] else [])"
    by (simp_all add: testFSM_lightup_poll [OF t4] a4)
  have t5: "testState s5 = testing"
    by (simp add: s5)
  have quiet: "TurnON_Booster_Red_LED \<notin> set (e1 @ e2 @ e3 @ e4)"
      "TurnON_Booster_Green_LED \<notin> set (e1 @ e2 @ e3 @ e4)"
      "TurnON_Booster_Blue_LED \<notin> set (e1 @ e2 @ e3 @ e4)"
    by (simp_all add: e1 e2 e3 e4)
  show ?thesis
    using t1 t2 t3 t4 t5 e1 e2 e3 e4 s4 a4 e5 s5 quiet by (simp only: simp_thms)
qed

theorem testFSM_setup_takes_four_polls_witness:
  "testFSM
       \<lparr>joyStick_vx = 1, joyStick_vy = 0, bottom_pushed = False, top_pushed = False, timer_expired = False\<rparr>
       True False
       \<lparr>actualColor = \<lparr>hasRed = False, hasGreen = True, hasBlue = False\<rparr>,
        guessColor = \<lparr>hasRed = True, hasGreen = True, hasBlue = True\<rparr>,
        colorIndex = 4, testState = testing, arrowPos = 4\<rparr>
     = (False, False,
        \<lparr>actualColor = \<lparr>hasRed = True, hasGreen = True, hasBlue = False\<rparr>,
         guessColor = \<lparr>hasRed = False, hasGreen = False, hasBlue = False\<rparr>,
         colorIndex = 1, testState = setup_state, arrowPos = 1\<rparr>,
        [TurnOFF_Booster_Blue_LED, TurnOFF_Booster_Green_LED, TurnOFF_Booster_Red_LED,
        getSampleJoyStick])
   \<and> testFSM
       \<lparr>joyStick_vx = 2, joyStick_vy = 4, bottom_pushed = False, top_pushed = False, timer_expired = False\<rparr>
       False False
       \<lparr>actualColor = \<lparr>hasRed = True, hasGreen = True, hasBlue = False\<rparr>,
        guessColor = \<lparr>hasRed = False, hasGreen = False, hasBlue = False\<rparr>,
        colorIndex = 1, testState = setup_state, arrowPos = 1\<rparr>
     = (False, False,
        \<lparr>actualColor = \<lparr>hasRed = True, hasGreen = False, hasBlue = False\<rparr>,
         guessColor = \<lparr>hasRed = False, hasGreen = False, hasBlue = False\<rparr>,
         colorIndex = 2, testState = setup_state, arrowPos = 1\<rparr>,
        [getSampleJoyStick])
   \<and> testFSM
       \<lparr>joyStick_vx = 3, joyStick_vy = 6, bottom_pushed = False, top_pushed = False, timer_expired = False\<rparr>
       False False
       \<lparr>actualColor = \<lparr>hasRed = True, hasGreen = False, hasBlue = False\<rparr>,
        guessColor = \<lparr>hasRed = False, hasGreen = False, hasBlue = False\<rparr>,
        colorIndex = 2, testState = setup_state, arrowPos = 1\<rparr>
     = (False, False,
        \<lparr>actualColor = \<lparr>hasRed = True, hasGreen = False, hasBlue = True\<rparr>,
         guessColor = \<lparr>hasRed = False, hasGreen = False, hasBlue = False\<rparr>,
         colorIndex = 3, testState = setup_state, arrowPos = 1\<rparr>,
        [getSampleJoyStick])
   \<and> testFSM
       \<lparr>joyStick_vx = 5, joyStick_vy = 2, bottom_pushed = False, top_pushed = False, timer_expired = False\<rparr>
       False False
       \<lparr>actualColor = \<lparr>hasRed = True, hasGreen = False, hasBlue = True\<rparr>,
        guessColor = \<lparr>hasRed = False, hasGreen = False, hasBlue = False\<rparr>,
        colorIndex = 3, testState = setup_state, arrowPos = 1\<rparr>
     = (False, False,
        \<lparr>actualColor = \<lparr>hasRed = True, hasGreen = False, hasBlue = True\<rparr>,
         guessColor = \<lparr>hasRed = False, hasGreen = False, hasBlue = False\<rparr>,
         colorIndex = 4, testState = lightup, arrowPos = 1\<rparr>,
        [getSampleJoyStick])
   \<and> testFSM
       \<lparr>joyStick_vx = 0, joyStick_vy = 0, bottom_pushed = False, top_pushed = False, timer_expired = False\<rparr>
       False False
       \<lparr>actualColor = \<lparr>hasRed = True, hasGreen = False, hasBlue = True\<rparr>,
        guessColor = \<lparr>hasRed = False, hasGreen = False, hasBlue = False\<rparr>,
        colorIndex = 4, testState = lightup, arrowPos = 1\<rparr>
     = (False, False,
        \<lparr>actualColor = \<lparr>hasRed = True, hasGreen = False, hasBlue = True\<rparr>,
         guessColor = \<lparr>hasRed = False, hasGreen = False, hasBlue = False\<rparr>,
         colorIndex = 4, testState = testing, arrowPos = 1\<rparr>,
        [TurnON_Booster_Red_LED, TurnON_Booster_Blue_LED])
   \<and> testState
       \<lparr>actualColor = \<lparr>hasRed = True, hasGreen = False, hasBlue = True\<rparr>,
        guessColor = \<lparr>hasRed = False, hasGreen = False, hasBlue = False\<rparr>,
        colorIndex = 4, testState = lightup, arrowPos = 1\<rparr>
     = lightup"
proof -
  have p1:
    "testFSM
       \<lparr>joyStick_vx = 1, joyStick_vy = 0, bottom_pushed = False, top_pushed = False, timer_expired = False\<rparr>
       True False
       \<lparr>actualColor = \<lparr>hasRed = False, hasGreen = True, hasBlue = False\<rparr>,
        guessColor = \<lparr>hasRed = True, hasGreen = True, hasBlue = True\<rparr>,
        colorIndex = 4, testState = testing, arrowPos = 4\<rparr>
     = (False, False,
        \<lparr>actualColor = \<lparr>hasRed = True, hasGreen = True, hasBlue = False\<rparr>,
         guessColor = \<lparr>hasRed = False, hasGreen = False, hasBlue = False\<rparr>,
         colorIndex = 1, testState = setup_state, arrowPos = 1\<rparr>,
        [TurnOFF_Booster_Blue_LED, TurnOFF_Booster_Green_LED, TurnOFF_Booster_Red_LED,
        getSampleJoyStick])"
    by (simp add: testFSM_def testFSM_reset_def testFSM_switch_def randomBit_def
        RED_def GREEN_def BLUE_def TOP_OPTION_POS_def)
  have p2:
    "testFSM
       \<lparr>joyStick_vx = 2, joyStick_vy = 4, bottom_pushed = False, top_pushed = False, timer_expired = False\<rparr>
       False False
       \<lparr>actualColor = \<lparr>hasRed = True, hasGreen = True, hasBlue = False\<rparr>,
        guessColor = \<lparr>hasRed = False, hasGreen = False, hasBlue = False\<rparr>,
        colorIndex = 1, testState = setup_state, arrowPos = 1\<rparr>
     = (False, False,
        \<lparr>actualColor = \<lparr>hasRed = True, hasGreen = False, hasBlue = False\<rparr>,
         guessColor = \<lparr>hasRed = False, hasGreen = False, hasBlue = False\<rparr>,
         colorIndex = 2, testState = setup_state, arrowPos = 1\<rparr>,
        [getSampleJoyStick])"
    by (simp add: testFSM_def testFSM_reset_def testFSM_switch_def randomBit_def
        RED_def GREEN_def BLUE_def TOP_OPTION_POS_def)
  have p3:
    "testFSM
       \<lparr>joyStick_vx = 3, joyStick_vy = 6, bottom_pushed = False, top_pushed = False, timer_expired = False\<rparr>
       False False
       \<lparr>actualColor = \<lparr>hasRed = True, hasGreen = False, hasBlue = False\<rparr>,
        guessColor = \<lparr>hasRed = False, hasGreen = False, hasBlue = False\<rparr>,
        colorIndex = 2, testState = setup_state, arrowPos = 1\<rparr>
     = (False, False,
        \<lparr>actualColor = \<lparr>hasRed = True, hasGreen = False, hasBlue = True\<rparr>,
         guessColor = \<lparr>hasRed = False, hasGreen = False, hasBlue = False\<rparr>,
         colorIndex = 3, testState = setup_state, arrowPos = 1\<rparr>,
        [getSampleJoyStick])"
    by (simp add: testFSM_def testFSM_reset_def testFSM_switch_def randomBit_def
        RED_def GREEN_def BLUE_def TOP_OPTION_POS_def)
  have p4:
    "testFSM
       \<lparr>joyStick_vx = 5, joyStick_vy = 2, bottom_pushed = False, top_pushed = False, timer_expired = False\<rparr>
       False False
       \<lparr>actualColor = \<lparr>hasRed = True, hasGreen = False, hasBlue = True\<rparr>,
        guessColor = \<lparr>hasRed = False, hasGreen = False, hasBlue = False\<rparr>,
        colorIndex = 3, testState = setup_state, arrowPos = 1\<rparr>
     = (False, False,
        \<lparr>actualColor = \<lparr>hasRed = True, hasGreen = False, hasBlue = True\<rparr>,
         guessColor = \<lparr>hasRed = False, hasGreen = False, hasBlue = False\<rparr>,
         colorIndex = 4, testState = lightup, arrowPos = 1\<rparr>,
        [getSampleJoyStick])"
    by (simp add: testFSM_def testFSM_reset_def testFSM_switch_def randomBit_def
        RED_def GREEN_def BLUE_def TOP_OPTION_POS_def)
  have p5:
    "testFSM
       \<lparr>joyStick_vx = 0, joyStick_vy = 0, bottom_pushed = False, top_pushed = False, timer_expired = False\<rparr>
       False False
       \<lparr>actualColor = \<lparr>hasRed = True, hasGreen = False, hasBlue = True\<rparr>,
        guessColor = \<lparr>hasRed = False, hasGreen = False, hasBlue = False\<rparr>,
        colorIndex = 4, testState = lightup, arrowPos = 1\<rparr>
     = (False, False,
        \<lparr>actualColor = \<lparr>hasRed = True, hasGreen = False, hasBlue = True\<rparr>,
         guessColor = \<lparr>hasRed = False, hasGreen = False, hasBlue = False\<rparr>,
         colorIndex = 4, testState = testing, arrowPos = 1\<rparr>,
        [TurnON_Booster_Red_LED, TurnON_Booster_Blue_LED])"
    by (simp add: testFSM_def testFSM_reset_def testFSM_switch_def randomBit_def
        RED_def GREEN_def BLUE_def TOP_OPTION_POS_def)
  note polls = testFSM_setup_takes_four_polls [OF p1 p2 p3 p4 p5]
  from polls have c:
    "testState
       \<lparr>actualColor = \<lparr>hasRed = True, hasGreen = False, hasBlue = True\<rparr>,
        guessColor = \<lparr>hasRed = False, hasGreen = False, hasBlue = False\<rparr>,
        colorIndex = 4, testState = lightup, arrowPos = 1\<rparr>
     = lightup"
    by simp
  show ?thesis
    by (intro conjI p1 p2 p3 p4 p5 c)
qed

text \<open>
  Claim C8. In the state \<open>testing\<close>, a poll of \<open>testFSM\<close> without \<open>newTest\<close> is one call
  of \<open>guess\<close> on \<open>arrowPos\<close> and the guessed mix. \<open>testFSM\<close> returns finished exactly
  when \<open>guess\<close> does. When finished, the content of \<open>*resultPointer\<close> is the \<open>match\<close> of
  the guessed and the actual mix, which is true exactly when the red flags are equal, the
  green flags are equal and the blue flags are equal; otherwise the content is what it was
  before the call. The state stays \<open>testing\<close> and the actual mix is not changed.
\<close>

theorem testFSM_testing_poll:
  assumes "testState s = testing"
  shows "testFSM i False r s =
           (case guess i (arrowPos s) (guessColor s) of (fin, ap, gc, ev) \<Rightarrow>
              (fin, (if fin then match gc (actualColor s) else r),
               s\<lparr>arrowPos := ap, guessColor := gc\<rparr>, ev))
       \<and> fst (testFSM i False r s) = fst (guess i (arrowPos s) (guessColor s))
       \<and> fst (snd (testFSM i False r s)) =
           (if fst (guess i (arrowPos s) (guessColor s))
            then match (guessColor s) (actualColor s) else r)
       \<and> fst (snd (testFSM i False r s)) =
           (if fst (testFSM i False r s)
            then hasRed (guessColor (fst (snd (snd (testFSM i False r s))))) = hasRed (actualColor s)
               \<and> hasGreen (guessColor (fst (snd (snd (testFSM i False r s))))) = hasGreen (actualColor s)
               \<and> hasBlue (guessColor (fst (snd (snd (testFSM i False r s))))) = hasBlue (actualColor s)
            else r)
       \<and> fst (snd (testFSM i False r s)) =
           (if fst (guess i (arrowPos s) (guessColor s))
            then hasRed (guessColor s) = hasRed (actualColor s)
               \<and> hasGreen (guessColor s) = hasGreen (actualColor s)
               \<and> hasBlue (guessColor s) = hasBlue (actualColor s)
            else r)
       \<and> match (guessColor s) (actualColor s) =
           (hasRed (guessColor s) = hasRed (actualColor s)
            \<and> hasGreen (guessColor s) = hasGreen (actualColor s)
            \<and> hasBlue (guessColor s) = hasBlue (actualColor s))
       \<and> testState (fst (snd (snd (testFSM i False r s)))) = testing
       \<and> actualColor (fst (snd (snd (testFSM i False r s)))) = actualColor s"
proof -
  obtain fin ap gc ev where g: "guess i (arrowPos s) (guessColor s) = (fin, ap, gc, ev)"
    by (cases "guess i (arrowPos s) (guessColor s)") auto
  have keep: "fin \<Longrightarrow> gc = guessColor s"
    using guess_finished_keeps_guessColor [of i "arrowPos s" "guessColor s"] g by simp
  have run: "testFSM i False r s =
      (fin, (if fin then match gc (actualColor s) else r), s\<lparr>arrowPos := ap, guessColor := gc\<rparr>, ev)"
    by (simp add: testFSM_def testFSM_reset_False testFSM_switch_testing [OF assms] g)
  show ?thesis
    using keep assms by (simp add: run g match_componentwise)
qed

theorem testFSM_testing_poll_witness:
  "testState \<lparr>actualColor = \<lparr>hasRed = True, hasGreen = False, hasBlue = True\<rparr>,
      guessColor = \<lparr>hasRed = True, hasGreen = False, hasBlue = True\<rparr>,
      colorIndex = 4, testState = testing, arrowPos = 4\<rparr> = testing
   \<and> testFSM \<lparr>joyStick_vx = 0, joyStick_vy = 0, bottom_pushed = False, top_pushed = True,
        timer_expired = False\<rparr> False False
        \<lparr>actualColor = \<lparr>hasRed = True, hasGreen = False, hasBlue = True\<rparr>,
         guessColor = \<lparr>hasRed = True, hasGreen = False, hasBlue = True\<rparr>,
         colorIndex = 4, testState = testing, arrowPos = 4\<rparr>
     = (True, True,
        \<lparr>actualColor = \<lparr>hasRed = True, hasGreen = False, hasBlue = True\<rparr>,
         guessColor = \<lparr>hasRed = True, hasGreen = False, hasBlue = True\<rparr>,
         colorIndex = 4, testState = testing, arrowPos = 4\<rparr>,
        [Booster_Bottom_Button_Pushed, Booster_Top_Button_Pushed, LCDDrawChar 4 9 (CHR ''*'')])
   \<and> testFSM \<lparr>joyStick_vx = 0, joyStick_vy = 0, bottom_pushed = False, top_pushed = True,
        timer_expired = False\<rparr> False True
        \<lparr>actualColor = \<lparr>hasRed = True, hasGreen = False, hasBlue = True\<rparr>,
         guessColor = \<lparr>hasRed = True, hasGreen = False, hasBlue = False\<rparr>,
         colorIndex = 4, testState = testing, arrowPos = 4\<rparr>
     = (True, False,
        \<lparr>actualColor = \<lparr>hasRed = True, hasGreen = False, hasBlue = True\<rparr>,
         guessColor = \<lparr>hasRed = True, hasGreen = False, hasBlue = False\<rparr>,
         colorIndex = 4, testState = testing, arrowPos = 4\<rparr>,
        [Booster_Bottom_Button_Pushed, Booster_Top_Button_Pushed, LCDDrawChar 4 9 (CHR ''*'')])
   \<and> testFSM \<lparr>joyStick_vx = 0, joyStick_vy = 0, bottom_pushed = True, top_pushed = False,
        timer_expired = False\<rparr> False True
        \<lparr>actualColor = \<lparr>hasRed = True, hasGreen = False, hasBlue = True\<rparr>,
         guessColor = \<lparr>hasRed = True, hasGreen = False, hasBlue = False\<rparr>,
         colorIndex = 4, testState = testing, arrowPos = 4\<rparr>
     = (False, True,
        \<lparr>actualColor = \<lparr>hasRed = True, hasGreen = False, hasBlue = True\<rparr>,
         guessColor = \<lparr>hasRed = True, hasGreen = False, hasBlue = False\<rparr>,
         colorIndex = 4, testState = testing, arrowPos = 1\<rparr>,
        [Booster_Bottom_Button_Pushed, LCDDrawChar 4 1 (CHR '' ''), LCDDrawChar 1 1 (CHR ''>''),
         Booster_Top_Button_Pushed])"
  using testFSM_testing_poll [of "\<lparr>actualColor = \<lparr>hasRed = True, hasGreen = False, hasBlue = True\<rparr>,
      guessColor = \<lparr>hasRed = True, hasGreen = False, hasBlue = True\<rparr>,
      colorIndex = 4, testState = testing, arrowPos = 4\<rparr>"
      "\<lparr>joyStick_vx = 0, joyStick_vy = 0, bottom_pushed = False, top_pushed = True,
        timer_expired = False\<rparr>" False]
    testFSM_testing_poll [of "\<lparr>actualColor = \<lparr>hasRed = True, hasGreen = False, hasBlue = True\<rparr>,
      guessColor = \<lparr>hasRed = True, hasGreen = False, hasBlue = False\<rparr>,
      colorIndex = 4, testState = testing, arrowPos = 4\<rparr>"
      "\<lparr>joyStick_vx = 0, joyStick_vy = 0, bottom_pushed = False, top_pushed = True,
        timer_expired = False\<rparr>" True]
    testFSM_testing_poll [of "\<lparr>actualColor = \<lparr>hasRed = True, hasGreen = False, hasBlue = True\<rparr>,
      guessColor = \<lparr>hasRed = True, hasGreen = False, hasBlue = False\<rparr>,
      colorIndex = 4, testState = testing, arrowPos = 4\<rparr>"
      "\<lparr>joyStick_vx = 0, joyStick_vy = 0, bottom_pushed = True, top_pushed = False,
        timer_expired = False\<rparr>" True]
  by (simp add: guess_def guess_move_def guess_select_def
      TOP_OPTION_POS_def BOTTOM_OPTION_POS_def RED_def GREEN_def BLUE_def)

section \<open>Properties of the screen controller\<close>

lemma ScreensFSM_INCEPTION:
  "state p = INCEPTION \<Longrightarrow>
   ScreensFSM i r p =
     (p\<lparr>state := OPENING\<rparr>,
      [InitOneShotSWTimer TIMER32_1_BASE OPENING_WAIT, StartOneShotSWTimer] @ DrawOpeningScreen)"
  by (simp add: ScreensFSM_def ScreensFSM_switch_def ScreensFSM_actions_def default_outputs_def)

lemma ScreensFSM_OPENING:
  "state p = OPENING \<Longrightarrow>
   ScreensFSM i r p =
     (if timer_expired i
      then (p\<lparr>state := INSTRUCTIONS\<rparr>, OneShotSWTimerExpired # DrawInstructionsScreen)
      else (p, [OneShotSWTimerExpired]))"
  by (simp add: ScreensFSM_def ScreensFSM_switch_def ScreensFSM_actions_def default_outputs_def)

lemma ScreensFSM_TEST_finished:
  "state p = TEST \<Longrightarrow> testFSM i (newTest p) r (test_vars p) = (True, res, tv, ev) \<Longrightarrow>
   ScreensFSM i r p =
     (p\<lparr>test_vars := tv, state := TESTEND, newTest := False\<rparr>,
      ev @ [InitOneShotSWTimer TIMER32_1_BASE OPENING_WAIT, StartOneShotSWTimer] @
      DrawEndTestScreen res)"
  by (simp add: ScreensFSM_def ScreensFSM_switch_def ScreensFSM_actions_def default_outputs_def)

lemma main_loop_snoc:
  "main_loop p (ins @ [(i, r)]) =
     (case main_loop p ins of (p1, ev1) \<Rightarrow>
        (case ScreensFSM i r p1 of (p2, ev2) \<Rightarrow> (p2, ev1 @ ev2)))"
  by (induction p ins rule: main_loop.induct) (simp_all split: prod.splits)

lemma main_loop_OPENING_waits:
  "state p = OPENING \<Longrightarrow> \<forall>x \<in> set ins. \<not> timer_expired (fst x) \<Longrightarrow>
   main_loop p ins = (p, replicate (length ins) OneShotSWTimerExpired)"
proof (induction ins)
  case Nil
  then show ?case by simp
next
  case (Cons x ins)
  obtain i r where x: "x = (i, r)" by (cases x)
  from Cons.prems have quiet: "\<not> timer_expired i"
    by (simp add: x)
  from Cons have rest: "main_loop p ins = (p, replicate (length ins) OneShotSWTimerExpired)"
    by simp
  show ?case
    by (simp add: x ScreensFSM_OPENING [OF Cons.prems(1)] quiet rest)
qed

text \<open>
  Claim C9. Starting in the state \<open>OPENING\<close>, the state is still \<open>OPENING\<close> after every
  poll in which the timer has not expired, and the first poll in which the timer has
  expired moves it to \<open>INSTRUCTIONS\<close> and draws the instructions screen. A single poll in
  \<open>OPENING\<close> ends in \<open>INSTRUCTIONS\<close> if the timer has expired and in \<open>OPENING\<close> if not.
\<close>

theorem ScreensFSM_OPENING_until_timer_expired:
  assumes "state p = OPENING"
    and "\<forall>x \<in> set ins. \<not> timer_expired (fst x)"
    and "timer_expired i"
  shows "(\<forall>k \<le> length ins. state (fst (main_loop p (take k ins))) = OPENING)
       \<and> state (fst (main_loop p (ins @ [(i, r)]))) = INSTRUCTIONS
       \<and> main_loop p (ins @ [(i, r)]) =
           (p\<lparr>state := INSTRUCTIONS\<rparr>,
            replicate (length ins) OneShotSWTimerExpired @
            OneShotSWTimerExpired # DrawInstructionsScreen)
       \<and> state (fst (ScreensFSM j r' p)) = (if timer_expired j then INSTRUCTIONS else OPENING)"
proof -
  have stay: "state (fst (main_loop p (take k ins))) = OPENING" for k
  proof -
    have "\<forall>x \<in> set (take k ins). \<not> timer_expired (fst x)"
      using assms(2) by (meson in_set_takeD)
    from main_loop_OPENING_waits [OF assms(1) this] show ?thesis
      by (simp add: assms(1))
  qed
  have last: "main_loop p (ins @ [(i, r)]) =
           (p\<lparr>state := INSTRUCTIONS\<rparr>,
            replicate (length ins) OneShotSWTimerExpired @
            OneShotSWTimerExpired # DrawInstructionsScreen)"
    by (simp add: main_loop_snoc main_loop_OPENING_waits [OF assms(1,2)]
        ScreensFSM_OPENING [OF assms(1)] assms(3))
  have one: "state (fst (ScreensFSM j r' p)) = (if timer_expired j then INSTRUCTIONS else OPENING)"
    by (simp add: ScreensFSM_OPENING [OF assms(1)] assms(1))
  show ?thesis
    using stay one by (simp add: last)
qed

theorem ScreensFSM_OPENING_until_timer_expired_witness:
  "state \<lparr>state = OPENING, newTest = False, test_vars = testFSM_init\<rparr> = OPENING
   \<and> \<not> timer_expired \<lparr>joyStick_vx = 0, joyStick_vy = 0, bottom_pushed = False,
        top_pushed = False, timer_expired = False\<rparr>
   \<and> timer_expired \<lparr>joyStick_vx = 0, joyStick_vy = 0, bottom_pushed = False,
        top_pushed = False, timer_expired = True\<rparr>
   \<and> state (fst (main_loop \<lparr>state = OPENING, newTest = False, test_vars = testFSM_init\<rparr>
        [(\<lparr>joyStick_vx = 0, joyStick_vy = 0, bottom_pushed = False,
            top_pushed = False, timer_expired = False\<rparr>, False),
         (\<lparr>joyStick_vx = 0, joyStick_vy = 0, bottom_pushed = False,
            top_pushed = False, timer_expired = False\<rparr>, True)])) = OPENING
   \<and> state (fst (main_loop \<lparr>state = OPENING, newTest = False, test_vars = testFSM_init\<rparr>
        ([(\<lparr>joyStick_vx = 0, joyStick_vy = 0, bottom_pushed = False,
             top_pushed = False, timer_expired = False\<rparr>, False),
          (\<lparr>joyStick_vx = 0, joyStick_vy = 0, bottom_pushed = False,
             top_pushed = False, timer_expired = False\<rparr>, True)] @
         [(\<lparr>joyStick_vx = 0, joyStick_vy = 0, bottom_pushed = False,
             top_pushed = False, timer_expired = True\<rparr>, False)]))) = INSTRUCTIONS"
proof -
  have h1: "state \<lparr>state = OPENING, newTest = False, test_vars = testFSM_init\<rparr> = OPENING"
    by simp
  have h2: "\<forall>x \<in> set
        [(\<lparr>joyStick_vx = 0, joyStick_vy = 0, bottom_pushed = False,
            top_pushed = False, timer_expired = False\<rparr>, False),
         (\<lparr>joyStick_vx = 0, joyStick_vy = 0, bottom_pushed = False,
            top_pushed = False, timer_expired = False\<rparr>, True)]. \<not> timer_expired (fst x)"
    by simp
  have h3: "timer_expired \<lparr>joyStick_vx = 0, joyStick_vy = 0, bottom_pushed = False,
        top_pushed = False, timer_expired = True\<rparr>"
    by simp
  note run = ScreensFSM_OPENING_until_timer_expired [OF h1 h2 h3, of False]
  have stay: "state (fst (main_loop \<lparr>state = OPENING, newTest = False, test_vars = testFSM_init\<rparr>
        [(\<lparr>joyStick_vx = 0, joyStick_vy = 0, bottom_pushed = False,
            top_pushed = False, timer_expired = False\<rparr>, False),
         (\<lparr>joyStick_vx = 0, joyStick_vy = 0, bottom_pushed = False,
            top_pushed = False, timer_expired = False\<rparr>, True)])) = OPENING"
    using run [THEN conjunct1, rule_format, of 2] by simp
  note leave = run [THEN conjunct2, THEN conjunct1]
  show ?thesis
    by (intro conjI h1 h3 stay leave) simp
qed

text \<open>
  Claim C2 says that the timer started on the transition from \<open>TEST\<close> to \<open>TESTEND\<close> runs
  longer than the one started on the transition from \<open>INCEPTION\<close> to \<open>OPENING\<close>. The source
  defines \<open>ENDTEST_WAIT\<close> as 2000 ms beside \<open>OPENING_WAIT\<close> (1000 ms) and never uses it:
  the only call of \<open>InitOneShotSWTimer\<close> passes \<open>OPENING_WAIT\<close>. The first poll of the
  program and a poll that ends a test (the arrow on the End row, the top button pushed)
  both start the timer with 1000 ms.
\<close>

theorem ScreensFSM_timer_durations:
  "ScreensFSM \<lparr>joyStick_vx = 0, joyStick_vy = 0, bottom_pushed = False, top_pushed = False,
       timer_expired = False\<rparr> False program_init
     = (program_init\<lparr>state := OPENING\<rparr>,
        [InitOneShotSWTimer TIMER32_1_BASE 1000, StartOneShotSWTimer] @ DrawOpeningScreen)
   \<and> ScreensFSM \<lparr>joyStick_vx = 0, joyStick_vy = 0, bottom_pushed = False, top_pushed = True,
       timer_expired = False\<rparr> False
       \<lparr>state = TEST, newTest = False,
        test_vars = \<lparr>actualColor = \<lparr>hasRed = True, hasGreen = False, hasBlue = False\<rparr>,
                     guessColor = \<lparr>hasRed = True, hasGreen = False, hasBlue = False\<rparr>,
                     colorIndex = 4, testState = testing, arrowPos = 4\<rparr>\<rparr>
     = (\<lparr>state = TESTEND, newTest = False,
         test_vars = \<lparr>actualColor = \<lparr>hasRed = True, hasGreen = False, hasBlue = False\<rparr>,
                      guessColor = \<lparr>hasRed = True, hasGreen = False, hasBlue = False\<rparr>,
                      colorIndex = 4, testState = testing, arrowPos = 4\<rparr>\<rparr>,
        [Booster_Bottom_Button_Pushed, Booster_Top_Button_Pushed, LCDDrawChar 4 9 (CHR ''*''),
         InitOneShotSWTimer TIMER32_1_BASE 1000, StartOneShotSWTimer] @ DrawEndTestScreen True)
   \<and> OPENING_WAIT = 1000 \<and> ENDTEST_WAIT = 2000"
  by (simp add: ScreensFSM_def ScreensFSM_switch_def ScreensFSM_actions_def default_outputs_def
      program_init_def testFSM_def testFSM_reset_def testFSM_switch_def
      guess_def guess_move_def guess_select_def match_def
      TOP_OPTION_POS_def RED_def GREEN_def BLUE_def OPENING_WAIT_def ENDTEST_WAIT_def)

end
